theory Spec2Isabelle
  imports Main
begin

section \<open>The address manager of pkg/loadbalancers/address\_manager.go\<close>

text \<open>
  The manager reserves, validates and releases one regional IP address through a remote
  address service. The model follows the Go source function by function. The remote
  service is an interface value of the manager (\<open>am.svc\<close>); it is modelled as a
  record of four state-transforming functions over an arbitrary service state, so that
  every theorem below holds for every behaviour of the remote side. Logging (\<open>klog\<close>
  and the \<open>logPrefix\<close> field that only feeds it) has no effect on results and is
  left out.
\<close>

subsection \<open>Data model\<close>

text \<open>\<open>IPAddressType\<close>: the \<open>iota\<close> constants of the source, in order.\<close>

datatype IPAddressType = IPAddrUndefined | IPAddrManaged | IPAddrUnmanaged

text \<open>
  Modelled from the spec: \<open>cloud.LbScheme\<close> is declared in k8s-cloud-provider, not under
  src; the spec has the scheme enumerated {internal, external}. \<open>LbScheme_string\<close> is the
  conversion \<open>string(am.addressType)\<close>.
\<close>

datatype LbScheme = SchemeExternal | SchemeInternal

fun LbScheme_string :: "LbScheme \<Rightarrow> string" where
  "LbScheme_string SchemeExternal = ''EXTERNAL''"
| "LbScheme_string SchemeInternal = ''INTERNAL''"

text \<open>
  Modelled from the spec: \<open>cloud.NetworkTier\<close> and its method \<open>ToGCEValue\<close> are declared
  in k8s-cloud-provider, not under src; the spec has the tier enumerated
  {premium, standard} with a canonical remote value. \<open>NetworkTier_string\<close> is the
  conversion \<open>string(am.networkTier)\<close>.
\<close>

datatype NetworkTier = NetworkTierPremium | NetworkTierStandard

fun NetworkTier_string :: "NetworkTier \<Rightarrow> string" where
  "NetworkTier_string NetworkTierPremium = ''Premium''"
| "NetworkTier_string NetworkTierStandard = ''Standard''"

fun ToGCEValue :: "NetworkTier \<Rightarrow> string" where
  "ToGCEValue NetworkTierPremium = ''PREMIUM''"
| "ToGCEValue NetworkTierStandard = ''STANDARD''"

text \<open>
  \<open>compute.Address\<close>, restricted to the fields the manager reads or writes. A Go
  \<open>*compute.Address\<close> is a \<open>compute_Address option\<close>, \<open>None\<close> the nil pointer.
\<close>

record compute_Address =
  Name :: string
  Description :: string
  Address :: string
  AddressType :: string
  Subnetwork :: string
  NetworkTier :: string

text \<open>
  Go's \<open>error\<close> values; a Go \<open>error\<close> is an \<open>error option\<close>, \<open>None\<close> being nil.
  \<^item> \<open>RemoteError code tier msg\<close>: an error of the remote service, with the two
    attributes the classifiers of \<open>pkg/utils\<close> read: the embedded HTTP status code and
    whether it is the service's network tier mismatch.
  \<^item> \<open>NetworkTierError resource desired received\<close>: the typed error built by
    \<open>utils.NewNetworkTierErr\<close>.
  \<^item> \<open>Errorf format args errs\<close>: the error built by \<open>fmt.Errorf\<close> from a format, its
    string arguments and its error arguments.
\<close>

datatype error =
    RemoteError nat bool string
  | NetworkTierError string string string
  | Errorf string "string list" "error list"

text \<open>The status codes of \<open>net/http\<close> the source names or its classifiers stand for.\<close>

definition StatusBadRequest :: nat where "StatusBadRequest = 400"
definition StatusNotFound :: nat where "StatusNotFound = 404"
definition StatusConflict :: nat where "StatusConflict = 409"

text \<open>
  Modelled from the spec: \<open>utils.IsHTTPErrorCode\<close>, \<open>utils.IsNotFoundError\<close>,
  \<open>utils.IsNetworkTierMismatchGCEError\<close>, \<open>utils.NewNetworkTierErr\<close> and
  \<open>utils.IgnoreHTTPNotFound\<close> live in pkg/utils, which is not under src. The spec has
  remote errors classified by embedded status codes into not-found, conflict, bad-request,
  network-tier-mismatch and other; the typed tier error carries the resource identity and
  the expected and actual tier strings. A nil error has no class.
\<close>

fun IsHTTPErrorCode :: "error option \<Rightarrow> nat \<Rightarrow> bool" where
  "IsHTTPErrorCode (Some (RemoteError c t m)) code = (c = code)"
| "IsHTTPErrorCode _ code = False"

definition IsNotFoundError :: "error option \<Rightarrow> bool" where
  "IsNotFoundError err = IsHTTPErrorCode err StatusNotFound"

fun IsNetworkTierMismatchGCEError :: "error \<Rightarrow> bool" where
  "IsNetworkTierMismatchGCEError (RemoteError c t m) = t"
| "IsNetworkTierMismatchGCEError _ = False"

definition NewNetworkTierErr :: "string \<Rightarrow> string \<Rightarrow> string \<Rightarrow> error" where
  "NewNetworkTierErr resource desired received = NetworkTierError resource desired received"

definition IgnoreHTTPNotFound :: "error option \<Rightarrow> error option" where
  "IgnoreHTTPNotFound err = (if IsNotFoundError err then None else err)"

subsection \<open>The remote service and the calls made on it\<close>

text \<open>
  \<open>gce.CloudAddressService\<close>, the four methods the manager calls. Each takes the
  service state and returns its Go results with the next state. A lookup returns the
  pair \<open>(*compute.Address, error)\<close> as Go has it, so that all four combinations of nil
  and non-nil are covered. \<open>ReserveRegionAddress\<close> receives a pointer, so its result
  also carries the pointed-to record as it is after the call.
\<close>

record 's CloudAddressService =
  GetRegionAddress ::
    "string \<Rightarrow> string \<Rightarrow> 's \<Rightarrow> (compute_Address option \<times> error option) \<times> 's"
  GetRegionAddressByIP ::
    "string \<Rightarrow> string \<Rightarrow> 's \<Rightarrow> (compute_Address option \<times> error option) \<times> 's"
  ReserveRegionAddress ::
    "compute_Address \<Rightarrow> string \<Rightarrow> 's \<Rightarrow> (compute_Address \<times> error option) \<times> 's"
  DeleteRegionAddress ::
    "string \<Rightarrow> string \<Rightarrow> 's \<Rightarrow> error option \<times> 's"

text \<open>
  One entry per call on the service, with its arguments in the source's order and what
  it returned. The trace is the only addition to the program: it records which remote
  calls an operation issues.
\<close>

datatype event =
    GetRegionAddressEv string string "compute_Address option" "error option"
  | GetRegionAddressByIPEv string string "compute_Address option" "error option"
  | ReserveRegionAddressEv compute_Address string compute_Address "error option"
  | DeleteRegionAddressEv string string "error option"

record 's world =
  remote :: 's
  trace :: "event list"

text \<open>The struct \<open>addressManager\<close>; \<open>tryRelease\<close> is its only mutable field.\<close>

record 's addressManager =
  svc :: "'s CloudAddressService"
  name :: string
  serviceName :: string
  targetIP :: string
  addressType :: LbScheme
  region :: string
  subnetURL :: string
  tryRelease :: bool
  networkTier :: NetworkTier

text \<open>A Go call either returns or panics (here: on a nil pointer dereference).\<close>

datatype 'a go_result = Returns 'a | Panics

definition call_GetRegionAddress ::
  "'s addressManager \<Rightarrow> string \<Rightarrow> string \<Rightarrow> 's world
     \<Rightarrow> (compute_Address option \<times> error option) \<times> 's world" where
  "call_GetRegionAddress am n r w =
     (case GetRegionAddress (svc am) n r (remote w) of
        ((addr, err), s) \<Rightarrow>
          ((addr, err), \<lparr>remote = s, trace = trace w @ [GetRegionAddressEv n r addr err]\<rparr>))"

definition call_GetRegionAddressByIP ::
  "'s addressManager \<Rightarrow> string \<Rightarrow> string \<Rightarrow> 's world
     \<Rightarrow> (compute_Address option \<times> error option) \<times> 's world" where
  "call_GetRegionAddressByIP am r ip w =
     (case GetRegionAddressByIP (svc am) r ip (remote w) of
        ((addr, err), s) \<Rightarrow>
          ((addr, err), \<lparr>remote = s, trace = trace w @ [GetRegionAddressByIPEv r ip addr err]\<rparr>))"

definition call_ReserveRegionAddress ::
  "'s addressManager \<Rightarrow> compute_Address \<Rightarrow> string \<Rightarrow> 's world
     \<Rightarrow> (compute_Address \<times> error option) \<times> 's world" where
  "call_ReserveRegionAddress am a r w =
     (case ReserveRegionAddress (svc am) a r (remote w) of
        ((a', err), s) \<Rightarrow>
          ((a', err), \<lparr>remote = s, trace = trace w @ [ReserveRegionAddressEv a r a' err]\<rparr>))"

definition call_DeleteRegionAddress ::
  "'s addressManager \<Rightarrow> string \<Rightarrow> string \<Rightarrow> 's world \<Rightarrow> error option \<times> 's world" where
  "call_DeleteRegionAddress am n r w =
     (case DeleteRegionAddress (svc am) n r (remote w) of
        (err, s) \<Rightarrow> (err, \<lparr>remote = s, trace = trace w @ [DeleteRegionAddressEv n r err]\<rparr>))"

text \<open>The calls issued between two worlds of one run.\<close>

definition issued :: "'s world \<Rightarrow> 's world \<Rightarrow> event list" where
  "issued w w' = drop (length (trace w)) (trace w')"

fun is_delete :: "event \<Rightarrow> bool" where
  "is_delete (DeleteRegionAddressEv n r err) = True"
| "is_delete _ = False"

fun is_reserve :: "event \<Rightarrow> bool" where
  "is_reserve (ReserveRegionAddressEv a r a' err) = True"
| "is_reserve _ = False"

fun is_get_by_ip :: "event \<Rightarrow> bool" where
  "is_get_by_ip (GetRegionAddressByIPEv r ip addr err) = True"
| "is_get_by_ip _ = False"

fun is_get_by_name :: "event \<Rightarrow> bool" where
  "is_get_by_name (GetRegionAddressEv n r addr err) = True"
| "is_get_by_name _ = False"

fun event_error :: "event \<Rightarrow> error option" where
  "event_error (GetRegionAddressEv n r addr err) = err"
| "event_error (GetRegionAddressByIPEv r ip addr err) = err"
| "event_error (ReserveRegionAddressEv a r a' err) = err"
| "event_error (DeleteRegionAddressEv n r err) = err"

subsection \<open>The manager's functions\<close>

definition newAddressManager ::
  "'s CloudAddressService \<Rightarrow> string \<Rightarrow> string \<Rightarrow> string \<Rightarrow> string \<Rightarrow> string
     \<Rightarrow> LbScheme \<Rightarrow> NetworkTier \<Rightarrow> 's addressManager" where
  "newAddressManager s serviceName' region' subnetURL' name' targetIP' addressType' networkTier' =
     \<lparr>svc = s, name = name', serviceName = serviceName', targetIP = targetIP',
      addressType = addressType', region = region', subnetURL = subnetURL',
      tryRelease = True, networkTier = networkTier'\<rparr>"

text \<open>
  \<open>validateAddress\<close> on a non-nil record. On a nil pointer the Go function panics at its
  first field read whatever the manager holds; the callers below model that case.
\<close>

definition validateAddress :: "'s addressManager \<Rightarrow> compute_Address \<Rightarrow> error option" where
  "validateAddress am addr =
     (if targetIP am \<noteq> '''' \<and> targetIP am \<noteq> Address addr then
        Some (Errorf ''IP mismatch, expected %q, actual: %q'' [targetIP am, Address addr] [])
      else if AddressType addr \<noteq> LbScheme_string (addressType am) then
        Some (Errorf ''address type mismatch, expected %q, actual: %q''
                [LbScheme_string (addressType am), AddressType addr] [])
      else if NetworkTier addr \<noteq> ToGCEValue (networkTier am) then
        Some (NewNetworkTierErr (''Static IP ('' @ name am @ '')'')
                (ToGCEValue (networkTier am)) (NetworkTier addr))
      else None)"

definition isManagedAddress :: "'s addressManager \<Rightarrow> compute_Address \<Rightarrow> bool" where
  "isManagedAddress am addr = (Name addr = name am)"

text \<open>The record \<open>newAddr\<close> that \<open>ensureAddressReservation\<close> builds before the call.\<close>

definition newAddr_of :: "'s addressManager \<Rightarrow> compute_Address" where
  "newAddr_of am =
     \<lparr>Name = name am,
      Description = ''{'' @ [CHR 0x22] @ ''kubernetes.io/service-name'' @ [CHR 0x22] @ '':''
                      @ [CHR 0x22] @ serviceName am @ [CHR 0x22] @ ''}'',
      Address = targetIP am,
      AddressType = LbScheme_string (addressType am),
      Subnetwork = subnetURL am,
      NetworkTier = (if addressType am = SchemeExternal then ToGCEValue (networkTier am) else '''')\<rparr>"

definition ensureAddressReservation ::
  "'s addressManager \<Rightarrow> 's world
     \<Rightarrow> (string \<times> IPAddressType \<times> error option) go_result \<times> 's addressManager \<times> 's world" where
  "ensureAddressReservation am w =
     (case call_ReserveRegionAddress am (newAddr_of am) (region am) w of
        ((newAddr, reserveErr), w1) \<Rightarrow>
          (case reserveErr of
             None \<Rightarrow>
               if Address newAddr \<noteq> '''' then
                 (Returns (Address newAddr, IPAddrManaged, None), am, w1)
               else
                 (case call_GetRegionAddress am (Name newAddr) (region am) w1 of
                    ((addr, err), w2) \<Rightarrow>
                      if err \<noteq> None then (Returns ('''', IPAddrUndefined, err), am, w2)
                      else
                        (case addr of
                           None \<Rightarrow> (Panics, am, w2)
                         | Some a \<Rightarrow> (Returns (Address a, IPAddrManaged, None), am, w2)))
           | Some rerr \<Rightarrow>
               if IsNetworkTierMismatchGCEError rerr then
                 (Returns ('''', IPAddrUndefined,
                    Some (NewNetworkTierErr (''Reserved static IP ('' @ name am @ '')'')
                            (NetworkTier_string (networkTier am))
                            (NetworkTier_string
                               (if NetworkTierPremium = networkTier am then NetworkTierStandard
                                else NetworkTierPremium)))),
                  am, w1)
               else if \<not> IsHTTPErrorCode reserveErr StatusConflict
                       \<and> \<not> IsHTTPErrorCode reserveErr StatusBadRequest then
                 (Returns ('''', IPAddrUndefined, reserveErr), am, w1)
               else if targetIP am = '''' then
                 (Returns ('''', IPAddrUndefined,
                    Some (Errorf ''failed to reserve address %q with no specific IP, err: %v''
                            [name am] [rerr])),
                  am, w1)
               else
                 (case call_GetRegionAddressByIP am (region am) (targetIP am) w1 of
                    ((addr, err), w2) \<Rightarrow>
                      (case err of
                         Some e \<Rightarrow>
                           (Returns ('''', IPAddrUndefined,
                              Some (Errorf ''failed to get address by IP %q after reservation attempt, err: %q, reservation err: %q''
                                      [targetIP am] [e, rerr])),
                            am, w2)
                       | None \<Rightarrow>
                           (case addr of
                              None \<Rightarrow> (Panics, am, w2)
                            | Some a \<Rightarrow>
                                (case validateAddress am a of
                                   Some verr \<Rightarrow>
                                     (Returns ('''', IPAddrUndefined,
                                        Some (Errorf ''address (%q) validation failed, err: %w''
                                                [Name a] [verr])),
                                      am, w2)
                                 | None \<Rightarrow>
                                     if isManagedAddress am a then
                                       (Returns (Address a, IPAddrManaged, None), am, w2)
                                     else
                                       (Returns (Address a, IPAddrUnmanaged, None),
                                        am\<lparr>tryRelease := False\<rparr>, w2)))))))"

definition HoldAddress ::
  "'s addressManager \<Rightarrow> 's world
     \<Rightarrow> (string \<times> IPAddressType \<times> error option) go_result \<times> 's addressManager \<times> 's world" where
  "HoldAddress am w =
     (case call_GetRegionAddress am (name am) (region am) w of
        ((addr, err), w1) \<Rightarrow>
          if err \<noteq> None \<and> \<not> IsNotFoundError err then
            (Returns ('''', IPAddrUndefined, err), am, w1)
          else
            (case addr of
               None \<Rightarrow> ensureAddressReservation am w1
             | Some a \<Rightarrow>
                 (case validateAddress am a of
                    None \<Rightarrow> (Returns (Address a, IPAddrManaged, None), am, w1)
                  | Some validationError \<Rightarrow>
                      (case call_DeleteRegionAddress am (Name a) (region am) w1 of
                         (derr, w2) \<Rightarrow>
                           if derr \<noteq> None then
                             if IsNotFoundError derr then ensureAddressReservation am w2
                             else (Returns ('''', IPAddrUndefined, derr), am, w2)
                           else ensureAddressReservation am w2))))"

text \<open>
  \<open>ReleaseAddress\<close> and \<open>TearDownAddressIPIfNetworkTierMismatch\<close> assign no field of the
  manager and dereference no pointer that may be nil: they return the error and the
  world.
\<close>

definition ReleaseAddress :: "'s addressManager \<Rightarrow> 's world \<Rightarrow> error option \<times> 's world" where
  "ReleaseAddress am w =
     (if \<not> tryRelease am then (None, w)
      else
        (case call_DeleteRegionAddress am (name am) (region am) w of
           (err, w1) \<Rightarrow>
             if err \<noteq> None then
               if IsNotFoundError err then (None, w1) else (err, w1)
             else (None, w1)))"

definition ensureAddressDeleted ::
  "'s CloudAddressService \<Rightarrow> string \<Rightarrow> string \<Rightarrow> 's \<Rightarrow> error option \<times> 's" where
  "ensureAddressDeleted s n r st =
     (case DeleteRegionAddress s n r st of (err, st') \<Rightarrow> (IgnoreHTTPNotFound err, st'))"

definition TearDownAddressIPIfNetworkTierMismatch ::
  "'s addressManager \<Rightarrow> 's world \<Rightarrow> error option \<times> 's world" where
  "TearDownAddressIPIfNetworkTierMismatch am w =
     (if targetIP am = '''' then (None, w)
      else
        (case call_GetRegionAddressByIP am (region am) (targetIP am) w of
           ((addr, err), w1) \<Rightarrow>
             if IsNotFoundError err then (None, w1)
             else if err \<noteq> None then (err, w1)
             else
               (case addr of
                  None \<Rightarrow> (None, w1)
                | Some a \<Rightarrow>
                    if NetworkTier a \<noteq> ToGCEValue (networkTier am) then
                      if \<not> isManagedAddress am a then
                        (Some (NewNetworkTierErr
                                 (''User specific address IP ('' @ name am @ '')'')
                                 (NetworkTier_string (networkTier am)) (NetworkTier a)),
                         w1)
                      else
                        (case call_DeleteRegionAddress am (Name a) (targetIP am) w1 of
                           (derr, w2) \<Rightarrow> (None, w2))
                    else (None, w1))))"


subsection \<open>Sequences of operations on one manager instance\<close>

text \<open>
  \<open>later am am'\<close>: the instance \<open>am'\<close> is what \<open>am\<close> has become after any number of
  operations, each run against an arbitrary world (so other actors may change the remote
  state between them). Only \<open>HoldAddress\<close> hands back a manager; \<open>ReleaseAddress\<close> and
  \<open>TearDownAddressIPIfNetworkTierMismatch\<close> leave the instance as it is.
\<close>

inductive later :: "'s addressManager \<Rightarrow> 's addressManager \<Rightarrow> bool" where
  later_refl: "later am am"
| later_hold: "later am am1 \<Longrightarrow> HoldAddress am1 w = (r, am2, w') \<Longrightarrow> later am am2"

subsection \<open>Concrete services and managers for running the model\<close>

text \<open>
  A service without state that answers every lookup by name, every lookup by IP, every
  reservation and every delete with a fixed result, and leaves the record passed to the
  reservation as it is. It stands for a remote side seen at one moment, including the
  failures and races an in-memory store cannot show.
\<close>

definition scripted_svc ::
  "(compute_Address option \<times> error option) \<Rightarrow> (compute_Address option \<times> error option)
     \<Rightarrow> error option \<Rightarrow> error option \<Rightarrow> unit CloudAddressService" where
  "scripted_svc byName byIP reserveErr deleteErr =
     \<lparr>GetRegionAddress = (\<lambda>n r s. (byName, s)),
      GetRegionAddressByIP = (\<lambda>r ip s. (byIP, s)),
      ReserveRegionAddress = (\<lambda>a r s. ((a, reserveErr), s)),
      DeleteRegionAddress = (\<lambda>n r s. (deleteErr, s))\<rparr>"

definition http_error :: "nat \<Rightarrow> error" where
  "http_error code = RemoteError code False ''remote error''"

text \<open>
  An in-memory service for one region: the state is the list of reserved addresses.
  Lookups answer 404 when nothing matches; a reservation conflicts (409) when the name or
  the requested IP is taken, and otherwise stores the record, giving it the address
  \<open>auto_ip\<close> when none was requested; a delete answers 404 when the name is unknown.
\<close>

definition store_svc :: "string \<Rightarrow> (compute_Address list) CloudAddressService" where
  "store_svc auto_ip =
     \<lparr>GetRegionAddress = (\<lambda>n r s.
        case find (\<lambda>b. Name b = n) s of
          Some b \<Rightarrow> ((Some b, None), s)
        | None \<Rightarrow> ((None, Some (http_error 404)), s)),
      GetRegionAddressByIP = (\<lambda>r ip s.
        case find (\<lambda>b. Address b = ip) s of
          Some b \<Rightarrow> ((Some b, None), s)
        | None \<Rightarrow> ((None, Some (http_error 404)), s)),
      ReserveRegionAddress = (\<lambda>a r s.
        if list_ex (\<lambda>b. Name b = Name a \<or> (Address a \<noteq> [] \<and> Address b = Address a)) s
        then ((a, Some (http_error 409)), s)
        else ((a, None),
              s @ [a\<lparr>Address := (if Address a = [] then auto_ip else Address a)\<rparr>])),
      DeleteRegionAddress = (\<lambda>n r s.
        if list_ex (\<lambda>b. Name b = n) s then (None, filter (\<lambda>b. Name b \<noteq> n) s)
        else (Some (http_error 404), s))\<rparr>"

definition external_record :: "string \<Rightarrow> string \<Rightarrow> string \<Rightarrow> compute_Address" where
  "external_record n ip tier =
     \<lparr>Name = n, Description = [], Address = ip, AddressType = ''EXTERNAL'',
      Subnetwork = [], NetworkTier = tier\<rparr>"

text \<open>
  The manager named \<open>lb\<close> in region \<open>us-central1\<close>, wanting an external premium-tier
  address, on a given service and with a given target IP.
\<close>

definition lb_manager :: "'s CloudAddressService \<Rightarrow> string \<Rightarrow> 's addressManager" where
  "lb_manager s ip =
     newAddressManager s ''svc'' ''us-central1'' [] ''lb'' ip SchemeExternal NetworkTierPremium"

definition start :: "'s \<Rightarrow> 's world" where
  "start s = \<lparr>remote = s, trace = []\<rparr>"

text \<open>The one address a user has reserved, under the name \<open>user-ip\<close>.\<close>

definition user_record :: compute_Address where
  "user_record = external_record ''user-ip'' ''10.0.0.5'' ''PREMIUM''"

text \<open>
  A race: nothing is found under the manager's name and the reservation conflicts, yet
  the lookup by IP finds a valid record under the manager's name (another controller has
  just created it).
\<close>

definition self_conflict_svc :: "unit CloudAddressService" where
  "self_conflict_svc =
     scripted_svc (None, Some (http_error 404))
       (Some (external_record ''lb'' ''10.0.0.5'' ''PREMIUM''), None)
       (Some (http_error 409)) (Some (http_error 404))"

text \<open>
  The lookup by IP finds the manager's own record with the standard tier, and the remote
  side fails every delete with a server error.
\<close>

definition wrong_tier_svc :: "error option \<Rightarrow> unit CloudAddressService" where
  "wrong_tier_svc deleteErr =
     scripted_svc (None, Some (http_error 404))
       (Some (external_record ''lb'' ''10.0.0.5'' ''STANDARD''), None)
       None deleteErr"

text \<open>What a lookup event returned as its record.\<close>

fun event_record :: "event \<Rightarrow> compute_Address option" where
  "event_record (GetRegionAddressEv n r addr err) = addr"
| "event_record (GetRegionAddressByIPEv r ip addr err) = addr"
| "event_record _ = None"

text \<open>A lookup that returned neither a record nor an error.\<close>

fun empty_lookup :: "event \<Rightarrow> bool" where
  "empty_lookup (GetRegionAddressEv n r addr err) = (addr = None \<and> err = None)"
| "empty_lookup (GetRegionAddressByIPEv r ip addr err) = (addr = None \<and> err = None)"
| "empty_lookup _ = False"

lemmas model_defs =
  HoldAddress_def ensureAddressReservation_def ReleaseAddress_def
  TearDownAddressIPIfNetworkTierMismatch_def validateAddress_def isManagedAddress_def
  newAddr_of_def call_GetRegionAddress_def call_GetRegionAddressByIP_def
  call_ReserveRegionAddress_def call_DeleteRegionAddress_def IsNotFoundError_def
  NewNetworkTierErr_def StatusNotFound_def StatusConflict_def StatusBadRequest_def
  issued_def

lemmas fixture_defs =
  scripted_svc_def store_svc_def http_error_def external_record_def lb_manager_def
  start_def user_record_def self_conflict_svc_def wrong_tier_svc_def newAddressManager_def

section \<open>Properties\<close>

subsection \<open>The release flag\<close>

lemma ensureAddressReservation_tryRelease:
  "ensureAddressReservation am w = (r, am', w') \<Longrightarrow> \<not> tryRelease am \<Longrightarrow> \<not> tryRelease am'"
  by (auto simp: ensureAddressReservation_def split: prod.splits option.splits if_splits)

lemma ensureAddressReservation_Unmanaged:
  "ensureAddressReservation am w = (Returns (ip, IPAddrUnmanaged, err), am', w')
     \<Longrightarrow> \<not> tryRelease am'"
  by (auto simp: ensureAddressReservation_def split: prod.splits option.splits if_splits)

lemma HoldAddress_tryRelease:
  "HoldAddress am w = (r, am', w') \<Longrightarrow> \<not> tryRelease am \<Longrightarrow> \<not> tryRelease am'"
  by (auto simp: HoldAddress_def split: prod.splits option.splits if_splits
           dest: ensureAddressReservation_tryRelease)

lemma HoldAddress_Unmanaged:
  "HoldAddress am w = (Returns (ip, IPAddrUnmanaged, err), am', w') \<Longrightarrow> \<not> tryRelease am'"
  by (auto simp: HoldAddress_def split: prod.splits option.splits if_splits
           dest: ensureAddressReservation_Unmanaged)

lemma later_tryRelease: "later am am' \<Longrightarrow> \<not> tryRelease am \<Longrightarrow> \<not> tryRelease am'"
  by (induction rule: later.induct) (auto dest: HoldAddress_tryRelease)

lemma ReleaseAddress_skips: "\<not> tryRelease am \<Longrightarrow> ReleaseAddress am w = (None, w)"
  by (simp add: ReleaseAddress_def)

lemma ReleaseAddress_same_world: "snd (ReleaseAddress am w) = w \<Longrightarrow> \<not> tryRelease am"
proof
  assume same: "snd (ReleaseAddress am w) = w" and on: "tryRelease am"
  from on have "length (trace (snd (ReleaseAddress am w))) = Suc (length (trace w))"
    by (auto simp: ReleaseAddress_def call_DeleteRegionAddress_def split: prod.splits)
  with same show False by simp
qed

lemma user_owned_HoldAddress:
  "HoldAddress (lb_manager (store_svc []) ''10.0.0.5'') (start [user_record]) =
     (Returns (''10.0.0.5'', IPAddrUnmanaged, None),
      (lb_manager (store_svc []) ''10.0.0.5'')\<lparr>tryRelease := False\<rparr>,
      \<lparr>remote = [user_record],
       trace =
         [GetRegionAddressEv ''lb'' ''us-central1'' None (Some (http_error 404)),
          ReserveRegionAddressEv (newAddr_of (lb_manager (store_svc []) ''10.0.0.5''))
            ''us-central1'' (newAddr_of (lb_manager (store_svc []) ''10.0.0.5''))
            (Some (http_error 409)),
          GetRegionAddressByIPEv ''us-central1'' ''10.0.0.5'' (Some user_record) None]\<rparr>)"
  by (simp add: model_defs fixture_defs)

text \<open>
  C1. Ownership safety: when \<open>HoldAddress\<close> returns the classification Unmanaged, the
  flag \<open>tryRelease\<close> of the instance is false afterwards, and \<open>ReleaseAddress\<close> on that
  instance, at once or after any further operations on it, returns nil and leaves the
  world as it found it: no call reaches the remote service, so no delete is issued.
\<close>

theorem unmanaged_never_released:
  assumes "HoldAddress am w = (Returns (ip, IPAddrUnmanaged, err), am1, w1)"
    and "later am1 am2"
  shows "\<not> tryRelease am1 \<and> ReleaseAddress am2 w2 = (None, w2)"
proof -
  from assms(1) have off: "\<not> tryRelease am1" by (rule HoldAddress_Unmanaged)
  with assms(2) have "\<not> tryRelease am2" by (rule later_tryRelease)
  with off show ?thesis by (simp add: ReleaseAddress_skips)
qed

theorem unmanaged_never_released_witness:
  "\<not> tryRelease ((lb_manager (store_svc []) ''10.0.0.5'')\<lparr>tryRelease := False\<rparr>)
   \<and> ReleaseAddress ((lb_manager (store_svc []) ''10.0.0.5'')\<lparr>tryRelease := False\<rparr>)
         (start [user_record])
       = (None, start [user_record])"
  using unmanaged_never_released
          [OF user_owned_HoldAddress later_refl, of "start [user_record]"] .

text \<open>
  C10. The flag \<open>tryRelease\<close> is monotone: the constructor sets it, no operation sets it
  again once it is false, and so an instance on which \<open>ReleaseAddress\<close> has skipped the
  delete (it left the world untouched) skips it on every later call.
\<close>

theorem tryRelease_monotone:
  "tryRelease (newAddressManager s sn r su n ip sch nt)
   \<and> (later am am' \<and> \<not> tryRelease am \<longrightarrow> \<not> tryRelease am')
   \<and> (later am am' \<and> snd (ReleaseAddress am w) = w \<longrightarrow> ReleaseAddress am' w' = (None, w'))"
proof (intro conjI impI)
  show "tryRelease (newAddressManager s sn r su n ip sch nt)"
    by (simp add: newAddressManager_def)
next
  assume "later am am' \<and> \<not> tryRelease am"
  then show "\<not> tryRelease am'" by (auto dest: later_tryRelease)
next
  assume h: "later am am' \<and> snd (ReleaseAddress am w) = w"
  then have "\<not> tryRelease am" by (auto dest: ReleaseAddress_same_world)
  with h have "\<not> tryRelease am'" by (auto dest: later_tryRelease)
  then show "ReleaseAddress am' w' = (None, w')" by (rule ReleaseAddress_skips)
qed

subsection \<open>Validation\<close>

text \<open>
  C4. Validation completeness: \<open>validateAddress\<close> returns nil exactly when the target IP
  is empty or equal to the record's address, the record's address type is the desired
  scheme, and the record's network tier is the canonical remote value of the desired
  tier; so any single mismatch yields an error.
\<close>

theorem validateAddress_complete:
  "validateAddress am addr = None \<longleftrightarrow>
     (targetIP am = '''' \<or> targetIP am = Address addr)
     \<and> AddressType addr = LbScheme_string (addressType am)
     \<and> NetworkTier addr = ToGCEValue (networkTier am)"
  by (simp add: validateAddress_def)

end
